theory Spec2Isabelle
  imports Main "HOL-Library.Multiset"
begin

section \<open>JavaScript values\<close>

text \<open>
  Request bodies, query strings and response bodies are JavaScript values. A number is
  modelled by an integer (the handlers never compute with numbers; they only print one, in
  the message of the update handler, and how the engine prints it is left open), an
  object by the list of its own properties in insertion order. None of the keys the
  handlers test with \<^verbatim>\<open>in\<close> is inherited from \<^verbatim>\<open>Object.prototype\<close>. A string is the
  list of the bytes of its UTF-8 form.
\<close>

datatype jsv =
    JUndefined
  | JNull
  | JBool bool
  | JNum int
  | JStr string
  | JArr "jsv list"
  | JObj "(string \<times> jsv) list"

type_synonym js_object = "(string \<times> jsv) list"

datatype js_error = TypeError | HeadersSent | CastError | ValidationError | DbError

text \<open>\<^verbatim>\<open>key in obj\<close>, \<^verbatim>\<open>obj[key]\<close> (undefined for a missing key), \<^verbatim>\<open>obj[key] = v\<close>
  and the keys a \<^verbatim>\<open>for (k in obj)\<close> loop visits.\<close>

definition has_key :: "string \<Rightarrow> js_object \<Rightarrow> bool" where
  "has_key k obj = (k \<in> set (map fst obj))"

definition get_prop :: "js_object \<Rightarrow> string \<Rightarrow> jsv" where
  "get_prop obj k = (case map_of obj k of None \<Rightarrow> JUndefined | Some v \<Rightarrow> v)"

fun set_prop :: "js_object \<Rightarrow> string \<Rightarrow> jsv \<Rightarrow> js_object" where
  "set_prop [] k v = [(k, v)]"
| "set_prop ((k', v') # ps) k v =
     (if k' = k then (k, v) # ps else (k', v') # set_prop ps k v)"

definition keys :: "js_object \<Rightarrow> string list" where
  "keys obj = remdups (map fst obj)"

text \<open>Truthiness, as \<^verbatim>\<open>&&\<close> and \<^verbatim>\<open>!\<close> test it.\<close>

fun truthy :: "jsv \<Rightarrow> bool" where
  "truthy JUndefined = False"
| "truthy JNull = False"
| "truthy (JBool b) = b"
| "truthy (JNum n) = (n \<noteq> 0)"
| "truthy (JStr s) = (s \<noteq> [])"
| "truthy (JArr _) = True"
| "truthy (JObj _) = True"

text \<open>The string a template literal puts in place of \<^verbatim>\<open>${v}\<close>; \<open>num\<close> is the
  engine's printing of a number.\<close>

fun join :: "string \<Rightarrow> string list \<Rightarrow> string" where
  "join sep [] = []"
| "join sep [s] = s"
| "join sep (s # t # ss) = s @ sep @ join sep (t # ss)"

fun js_to_string :: "(int \<Rightarrow> string) \<Rightarrow> jsv \<Rightarrow> string" where
  "js_to_string num JUndefined = ''undefined''"
| "js_to_string num JNull = ''null''"
| "js_to_string num (JBool b) = (if b then ''true'' else ''false'')"
| "js_to_string num (JNum n) = num n"
| "js_to_string num (JStr s) = s"
| "js_to_string num (JArr vs) =
     join '','' (map (\<lambda>v. if v = JUndefined \<or> v = JNull then [] else js_to_string num v) vs)"
| "js_to_string num (JObj _) = ''[object Object]''"

text \<open>
  \<^verbatim>\<open>String.prototype.trim\<close> takes the white space and the line terminators from both
  ends: U+0009 to U+000D, U+0020, U+00A0, U+1680, U+2000 to U+200A, U+2028, U+2029,
  U+202F, U+205F, U+3000 and U+FEFF, here in UTF-8.
\<close>

definition white_space :: "string list" where
  "white_space =
     [[CHR 0x09], [CHR 0x0A], [CHR 0x0B], [CHR 0x0C], [CHR 0x0D], [CHR 0x20],
      [CHR 0xC2, CHR 0xA0],
      [CHR 0xE1, CHR 0x9A, CHR 0x80],
      [CHR 0xE2, CHR 0x80, CHR 0x80], [CHR 0xE2, CHR 0x80, CHR 0x81],
      [CHR 0xE2, CHR 0x80, CHR 0x82], [CHR 0xE2, CHR 0x80, CHR 0x83],
      [CHR 0xE2, CHR 0x80, CHR 0x84], [CHR 0xE2, CHR 0x80, CHR 0x85],
      [CHR 0xE2, CHR 0x80, CHR 0x86], [CHR 0xE2, CHR 0x80, CHR 0x87],
      [CHR 0xE2, CHR 0x80, CHR 0x88], [CHR 0xE2, CHR 0x80, CHR 0x89],
      [CHR 0xE2, CHR 0x80, CHR 0x8A],
      [CHR 0xE2, CHR 0x80, CHR 0xA8], [CHR 0xE2, CHR 0x80, CHR 0xA9],
      [CHR 0xE2, CHR 0x80, CHR 0xAF],
      [CHR 0xE2, CHR 0x81, CHR 0x9F],
      [CHR 0xE3, CHR 0x80, CHR 0x80],
      [CHR 0xEF, CHR 0xBB, CHR 0xBF]]"

function strip :: "string list \<Rightarrow> string \<Rightarrow> string" where
  "strip ws s =
     (case find (\<lambda>w. w \<noteq> [] \<and> take (length w) s = w) ws of
        None \<Rightarrow> s
      | Some w \<Rightarrow> strip ws (drop (length w) s))"
  by pat_completeness auto
termination
proof (relation "measure (\<lambda>(ws, s). length s)")
  show "wf (measure (\<lambda>(ws, s). length s))" by simp
next
  fix ws :: "string list" and s w :: string
  assume "find (\<lambda>w. w \<noteq> [] \<and> take (length w) s = w) ws = Some w"
  then have ne: "w \<noteq> []" and pre: "take (length w) s = w"
    by (auto simp: find_Some_iff)
  have "length (take (length w) s) = length w"
    using pre by simp
  then have "length w \<le> length s"
    by simp
  then show "((ws, drop (length w) s), (ws, s)) \<in> measure (\<lambda>(ws, s). length s)"
    using ne by (cases w) auto
qed

declare strip.simps [simp del]

definition trim :: "string \<Rightarrow> string" where
  "trim s = rev (strip (map rev white_space) (rev (strip white_space s)))"

section \<open>The restaurant document (models.js)\<close>

text \<open>
  A path of a document holds a value of its schema type, or null, or nothing at all
  (reading it gives undefined). Only \<open>name\<close>, \<open>borough\<close> and \<open>cuisine\<close> are required
  by the schema, and only when a document is validated. \<open>doc_id\<close> is the \<open>_id\<close> of the
  document, an ObjectId, as its 24 lower-case hexadecimal digits; a date is its time in
  milliseconds. Every entry of \<open>grades\<close> is a subdocument with the three paths of the
  schema.
\<close>

datatype 'a pathval = Undefined | Null | Val 'a

record grade_doc =
  date :: "int pathval"
  grade :: "string pathval"
  score :: "int pathval"

record address_doc =
  building :: "string pathval"
  coord :: "string list"
  street :: "string pathval"
  zipcode :: "string pathval"

record restaurant =
  doc_id :: string
  name :: "string pathval"
  borough :: "string pathval"
  cuisine :: "string pathval"
  address :: address_doc
  grades :: "grade_doc list"

section \<open>The environment\<close>

text \<open>
  What the JavaScript engine, the library and the database decide on their own is an
  argument \<open>env\<close> of every function that meets it:
  \<^item> \<open>array_sort\<close>: \<^verbatim>\<open>Array.prototype.sort\<close> on an array of grades, given the comparison
    function (whose result \<open>None\<close> is NaN);
  \<^item> \<open>number_to_string\<close>: the string of a number;
  \<^item> \<open>fresh_id\<close>: the identifier generated for a created document;
  \<^item> \<open>db_fault\<close>: the database call fails (no connection, say);
  \<^item> \<open>cast_id\<close>: the cast of a string to an ObjectId, as its 24 lower-case hexadecimal
    digits (\<open>None\<close>: the cast fails);
  \<^item> \<open>cast_string\<close>: the cast of a value that is not a string, null or undefined to a
    String path;
  \<^item> \<open>cast_grades\<close>, \<open>cast_address\<close>: the casts of a given value to the \<open>grades\<close>
    array and to the nested \<open>address\<close>;
  \<^item> \<open>set_other\<close>: what \<^verbatim>\<open>$set\<close> does to a document for a key that is none of \<open>name\<close>,
    \<open>borough\<close>, \<open>cuisine\<close>, \<open>address\<close>, \<open>grades\<close> (\<open>None\<close>: the update is rejected);
  \<^item> \<open>query_op\<close>: the condition a query value that is not a string stands for
    (\<open>None\<close>: the query is rejected).
\<close>

record env =
  array_sort :: "(grade_doc \<Rightarrow> grade_doc \<Rightarrow> int option) \<Rightarrow> grade_doc list \<Rightarrow> grade_doc list"
  number_to_string :: "int \<Rightarrow> string"
  fresh_id :: string
  db_fault :: bool
  cast_id :: "string \<Rightarrow> string option"
  cast_string :: "jsv \<Rightarrow> string option"
  cast_grades :: "jsv \<Rightarrow> grade_doc list option"
  cast_address :: "jsv \<Rightarrow> address_doc option"
  set_other :: "string \<Rightarrow> jsv \<Rightarrow> (restaurant \<Rightarrow> restaurant) option"
  query_op :: "jsv \<Rightarrow> (string pathval \<Rightarrow> bool) option"

section \<open>Virtuals and the public representation (models.js)\<close>

definition field_to_string :: "string pathval \<Rightarrow> string" where
  "field_to_string f = (case f of Undefined \<Rightarrow> ''undefined'' | Null \<Rightarrow> ''null'' | Val s \<Rightarrow> s)"

definition field_jsv :: "string pathval \<Rightarrow> jsv" where
  "field_jsv f = (case f of Undefined \<Rightarrow> JUndefined | Null \<Rightarrow> JNull | Val s \<Rightarrow> JStr s)"

text \<open>
  \<^verbatim>\<open>restaurantSchema.virtual('addressString')\<close>:
  \<^verbatim>\<open>`${this.address.building} ${this.address.street}`.trim()\<close>.
  \<open>address\<close> is a nested path: reading it always gives an object, whose leaves may be
  undefined.
\<close>

definition addressString :: "restaurant \<Rightarrow> string" where
  "addressString r =
     trim (field_to_string (building (address r)) @ '' '' @ field_to_string (street (address r)))"

text \<open>
  The comparison function of the \<open>grade\<close> virtual, \<^verbatim>\<open>(a, b) => b.date - a.date\<close>: a date
  counts as its milliseconds, null as 0, and a missing date makes the difference NaN.
\<close>

definition date_number :: "int pathval \<Rightarrow> int option" where
  "date_number d = (case d of Undefined \<Rightarrow> None | Null \<Rightarrow> Some 0 | Val t \<Rightarrow> Some t)"

definition comparefn :: "grade_doc \<Rightarrow> grade_doc \<Rightarrow> int option" where
  "comparefn a b =
     (case date_number (date b) of
        None \<Rightarrow> None
      | Some tb \<Rightarrow> (case date_number (date a) of None \<Rightarrow> None | Some ta \<Rightarrow> Some (tb - ta)))"

text \<open>
  \<^verbatim>\<open>restaurantSchema.virtual('grade')\<close>:
  \<^verbatim>\<open>const gradeObj = this.grades.sort(...)[0] || {}; return gradeObj.grade;\<close>
  \<open>sort\<close> works in place, so the getter returns the document with its array sorted
  beside the value.
\<close>

definition empty_object :: grade_doc where
  "empty_object = \<lparr>date = Undefined, grade = Undefined, score = Undefined\<rparr>"

definition grade_virtual :: "env \<Rightarrow> restaurant \<Rightarrow> string pathval \<times> restaurant" where
  "grade_virtual e r =
     (let sorted = array_sort e comparefn (grades r);
          gradeObj = (case sorted of [] \<Rightarrow> empty_object | g # _ \<Rightarrow> g)
      in (grade gradeObj, r\<lparr>grades := sorted\<rparr>))"

text \<open>\<^verbatim>\<open>restaurantSchema.methods.apiRepr\<close>: the object literal, its properties evaluated
  in the order written.\<close>

definition apiRepr :: "env \<Rightarrow> restaurant \<Rightarrow> js_object \<times> restaurant" where
  "apiRepr e r =
     (let (g, r') = grade_virtual e r
      in ([(''id'', JStr (doc_id r)),
           (''name'', field_jsv (name r)),
           (''cuisine'', field_jsv (cuisine r)),
           (''borough'', field_jsv (borough r)),
           (''grade'', field_jsv g),
           (''address'', JStr (addressString r'))], r'))"

section \<open>The document store\<close>

text \<open>
  The handlers reach the collection through the model's \<open>find\<close>, \<open>findById\<close>,
  \<open>create\<close>, \<open>findByIdAndUpdate\<close> and \<open>findByIdAndRemove\<close>. The collection is the
  list of its documents.

  What the model takes from the library: a nested path reads as an object even when
  nothing was stored for it; \<^verbatim>\<open>required: true\<close> on a String path rejects undefined,
  null and the empty string, when a document is created; an update does not validate;
  the identifier of a query is cast to an ObjectId before it is compared;
  \<open>findByIdAndUpdate\<close> without the option \<open>new\<close> gives the document as it was before
  the update.
\<close>

type_synonym collection = "restaurant list"

definition cast_path :: "env \<Rightarrow> jsv \<Rightarrow> js_error + string pathval" where
  "cast_path e v =
     (case v of
        JUndefined \<Rightarrow> Inr Undefined
      | JNull \<Rightarrow> Inr Null
      | JStr s \<Rightarrow> Inr (Val s)
      | _ \<Rightarrow> (case cast_string e v of None \<Rightarrow> Inl CastError | Some s \<Rightarrow> Inr (Val s)))"

text \<open>\<^verbatim>\<open>required: true\<close> on a String path: a string that is not empty.\<close>

definition required_ok :: "string pathval \<Rightarrow> bool" where
  "required_ok f = (case f of Val s \<Rightarrow> s \<noteq> [] | _ \<Rightarrow> False)"

definition empty_address :: address_doc where
  "empty_address = \<lparr>building = Undefined, coord = [], street = Undefined, zipcode = Undefined\<rparr>"

definition grades_of_value :: "env \<Rightarrow> jsv \<Rightarrow> grade_doc list option" where
  "grades_of_value e v = (if v = JUndefined then Some [] else cast_grades e v)"

definition address_of_value :: "env \<Rightarrow> jsv \<Rightarrow> address_doc option" where
  "address_of_value e v = (if v = JUndefined then Some empty_address else cast_address e v)"

text \<open>\<^verbatim>\<open>Restaurant.create(obj)\<close>: cast, validate, insert.\<close>

definition create :: "env \<Rightarrow> js_object \<Rightarrow> collection \<Rightarrow> js_error + (restaurant \<times> collection)" where
  "create e obj docs =
     (case cast_path e (get_prop obj ''name'') of Inl err \<Rightarrow> Inl err | Inr n \<Rightarrow>
      case cast_path e (get_prop obj ''borough'') of Inl err \<Rightarrow> Inl err | Inr b \<Rightarrow>
      case cast_path e (get_prop obj ''cuisine'') of Inl err \<Rightarrow> Inl err | Inr c \<Rightarrow>
      case grades_of_value e (get_prop obj ''grades'') of None \<Rightarrow> Inl CastError | Some gs \<Rightarrow>
      case address_of_value e (get_prop obj ''address'') of None \<Rightarrow> Inl CastError | Some a \<Rightarrow>
        if \<not> (required_ok n \<and> required_ok b \<and> required_ok c) then Inl ValidationError
        else if db_fault e then Inl DbError
        else (let d = \<lparr>doc_id = fresh_id e, name = n, borough = b, cuisine = c,
                        address = a, grades = gs\<rparr>
              in Inr (d, docs @ [d])))"

text \<open>\<^verbatim>\<open>Restaurant.findById(id)\<close>: the identifier is cast; the call gives the document
  with it, or null when there is none.\<close>

definition findById :: "env \<Rightarrow> string \<Rightarrow> collection \<Rightarrow> js_error + restaurant option" where
  "findById e i docs =
     (case cast_id e i of
        None \<Rightarrow> Inl CastError
      | Some c \<Rightarrow>
          if db_fault e then Inl DbError
          else Inr (find (\<lambda>d. doc_id d = c) docs))"

text \<open>\<^verbatim>\<open>Restaurant.find(filter).limit(n)\<close>: a string in the filter asks for that very
  string at the path; any other value is a condition that the library reads.\<close>

definition string_path :: "string \<Rightarrow> restaurant \<Rightarrow> string pathval" where
  "string_path k d =
     (if k = ''name'' then name d
      else if k = ''borough'' then borough d
      else if k = ''cuisine'' then cuisine d
      else Undefined)"

definition cond_ok :: "env \<Rightarrow> jsv \<Rightarrow> bool" where
  "cond_ok e v = (case v of JStr _ \<Rightarrow> True | _ \<Rightarrow> query_op e v \<noteq> None)"

definition cond_holds :: "env \<Rightarrow> jsv \<Rightarrow> string pathval \<Rightarrow> bool" where
  "cond_holds e v p =
     (case v of
        JStr s \<Rightarrow> p = Val s
      | _ \<Rightarrow> (case query_op e v of None \<Rightarrow> False | Some P \<Rightarrow> P p))"

definition matches :: "env \<Rightarrow> js_object \<Rightarrow> restaurant \<Rightarrow> bool" where
  "matches e flt d = list_all (\<lambda>(k, v). cond_holds e v (string_path k d)) flt"

definition find_limit :: "env \<Rightarrow> js_object \<Rightarrow> nat \<Rightarrow> collection \<Rightarrow> js_error + restaurant list" where
  "find_limit e flt n docs =
     (if \<not> list_all (\<lambda>(k, v). cond_ok e v) flt then Inl CastError
      else if db_fault e then Inl DbError
      else Inr (take n (filter (matches e flt) docs)))"

text \<open>
  \<^verbatim>\<open>Restaurant.findByIdAndUpdate(id, {$set: upd})\<close>, with no options: the identifier and
  the given values are cast (without validation), the paths are set on the document with
  that identifier, and the call gives the document as it was found, or null when there
  is none. \<^verbatim>\<open>$set\<close> sets whatever path it is given, \<open>grades\<close> as well.
\<close>

definition cast_set :: "env \<Rightarrow> string \<Rightarrow> jsv \<Rightarrow> js_error + (restaurant \<Rightarrow> restaurant)" where
  "cast_set e k v =
     (if k = ''name'' then
        (case cast_path e v of Inl err \<Rightarrow> Inl err | Inr x \<Rightarrow> Inr (\<lambda>d. d\<lparr>name := x\<rparr>))
      else if k = ''borough'' then
        (case cast_path e v of Inl err \<Rightarrow> Inl err | Inr x \<Rightarrow> Inr (\<lambda>d. d\<lparr>borough := x\<rparr>))
      else if k = ''cuisine'' then
        (case cast_path e v of Inl err \<Rightarrow> Inl err | Inr x \<Rightarrow> Inr (\<lambda>d. d\<lparr>cuisine := x\<rparr>))
      else if k = ''address'' then
        (case cast_address e v of None \<Rightarrow> Inl CastError | Some a \<Rightarrow> Inr (\<lambda>d. d\<lparr>address := a\<rparr>))
      else if k = ''grades'' then
        (case cast_grades e v of None \<Rightarrow> Inl CastError | Some gs \<Rightarrow> Inr (\<lambda>d. d\<lparr>grades := gs\<rparr>))
      else (case set_other e k v of None \<Rightarrow> Inl CastError | Some f \<Rightarrow> Inr f))"

fun cast_update :: "env \<Rightarrow> js_object \<Rightarrow> js_error + (restaurant \<Rightarrow> restaurant)" where
  "cast_update e [] = Inr (\<lambda>d. d)"
| "cast_update e ((k, v) # kvs) =
     (case cast_set e k v of
        Inl err \<Rightarrow> Inl err
      | Inr f \<Rightarrow> (case cast_update e kvs of Inl err \<Rightarrow> Inl err | Inr g \<Rightarrow> Inr (\<lambda>d. g (f d))))"

fun update_first :: "string \<Rightarrow> (restaurant \<Rightarrow> restaurant) \<Rightarrow> collection \<Rightarrow> collection" where
  "update_first c f [] = []"
| "update_first c f (d # ds) = (if doc_id d = c then f d # ds else d # update_first c f ds)"

definition findByIdAndUpdate ::
  "env \<Rightarrow> string \<Rightarrow> js_object \<Rightarrow> collection \<Rightarrow> js_error + (restaurant option \<times> collection)" where
  "findByIdAndUpdate e i upd docs =
     (case cast_id e i of
        None \<Rightarrow> Inl CastError
      | Some c \<Rightarrow>
          (case cast_update e upd of
             Inl err \<Rightarrow> Inl err
           | Inr f \<Rightarrow>
               if db_fault e then Inl DbError
               else Inr (find (\<lambda>d. doc_id d = c) docs, update_first c f docs)))"

text \<open>\<^verbatim>\<open>Restaurant.findByIdAndRemove(id)\<close>.\<close>

fun remove_first :: "string \<Rightarrow> collection \<Rightarrow> collection" where
  "remove_first c [] = []"
| "remove_first c (d # ds) = (if doc_id d = c then ds else d # remove_first c ds)"

definition findByIdAndRemove ::
  "env \<Rightarrow> string \<Rightarrow> collection \<Rightarrow> js_error + (restaurant option \<times> collection)" where
  "findByIdAndRemove e i docs =
     (case cast_id e i of
        None \<Rightarrow> Inl CastError
      | Some c \<Rightarrow>
          if db_fault e then Inl DbError
          else Inr (find (\<lambda>d. doc_id d = c) docs, remove_first c docs))"

section \<open>The request handlers (server.js)\<close>

datatype payload = Json jsv | Text string | NoBody

record response =
  status :: nat
  payload :: payload

text \<open>
  The response object \<open>res\<close> is what has been sent so far. Sending twice throws (the
  headers are already out), and the first response is the one the client has.
\<close>

definition send :: "response \<Rightarrow> response option \<Rightarrow> js_error + response option" where
  "send r res = (case res of None \<Rightarrow> Inr (Some r) | Some _ \<Rightarrow> Inl HeadersSent)"

text \<open>\<^verbatim>\<open>res.json(obj)\<close> of a flat object: a property whose value is undefined is left out.\<close>

definition json_object :: "js_object \<Rightarrow> jsv" where
  "json_object obj = JObj (filter (\<lambda>(k, v). v \<noteq> JUndefined) obj)"

definition internal_error :: response where
  "internal_error =
     \<lparr>status = 500, payload = Json (JObj [(''message'', JStr ''Internal server error'')])\<rparr>"

text \<open>The \<^verbatim>\<open>.catch\<close> callback: \<^verbatim>\<open>res.status(500).json({message: 'Internal server error'})\<close>.
  When that throws as well, nothing handles it and \<open>res\<close> stays as it is.\<close>

definition catch500 :: "response option \<Rightarrow> response option" where
  "catch500 res = (case send internal_error res of Inl _ \<Rightarrow> res | Inr res' \<Rightarrow> res')"

text \<open>\<^verbatim>\<open>promise.then(cb).catch(...)\<close>, where \<open>r\<close> is the response \<open>cb\<close> is about to send,
  or the error that rejected the promise or was thrown in \<open>cb\<close>.\<close>

definition then_catch :: "response option \<Rightarrow> js_error + response \<Rightarrow> response option" where
  "then_catch res r =
     (case r of
        Inl _ \<Rightarrow> catch500 res
      | Inr resp \<Rightarrow> (case send resp res of Inl _ \<Rightarrow> catch500 res | Inr res' \<Rightarrow> res'))"

text \<open>\<^verbatim>\<open>restaurant.apiRepr()\<close> on what a query gave: null has no such method.\<close>

definition call_apiRepr :: "env \<Rightarrow> restaurant option \<Rightarrow> js_error + (js_object \<times> restaurant)" where
  "call_apiRepr e dopt = (case dopt of None \<Rightarrow> Inl TypeError | Some d \<Rightarrow> Inr (apiRepr e d))"

definition json_reply :: "nat \<Rightarrow> js_error + (js_object \<times> restaurant) \<Rightarrow> js_error + response" where
  "json_reply code p =
     (case p of
        Inl err \<Rightarrow> Inl err
      | Inr (repr, _) \<Rightarrow> Inr \<lparr>status = code, payload = Json (json_object repr)\<rparr>)"

definition projected :: "js_error + (js_object \<times> restaurant) \<Rightarrow> restaurant list" where
  "projected p = (case p of Inl _ \<Rightarrow> [] | Inr (_, d) \<Rightarrow> [d])"

text \<open>
  What a handler leaves behind: the response the client has, the collection, and the
  document objects it held, as they are when it is done.
\<close>

record outcome =
  reply :: "response option"
  db :: collection
  documents :: "restaurant list"

text \<open>\<^verbatim>\<open>app.get('/restaurants', ...)\<close>\<close>

definition queryableFields :: "string list" where
  "queryableFields = [''cuisine'', ''borough'']"

definition build_filter :: "js_object \<Rightarrow> js_object" where
  "build_filter q =
     foldl (\<lambda>flt field'.
              if field' \<in> set queryableFields then set_prop flt field' (get_prop q field')
              else flt)
       [] (keys q)"

definition get_restaurants :: "env \<Rightarrow> js_object \<Rightarrow> collection \<Rightarrow> outcome" where
  "get_restaurants e q docs =
     (let flt = build_filter q in
      case find_limit e flt 10 docs of
        Inl err \<Rightarrow> \<lparr>reply = then_catch None (Inl err), db = docs, documents = []\<rparr>
      | Inr restaurants \<Rightarrow>
          (let reprs = map (apiRepr e) restaurants;
               body = JObj [(''restaurants'', JArr (map (\<lambda>p. json_object (fst p)) reprs))]
           in \<lparr>reply = then_catch None (Inr \<lparr>status = 200, payload = Json body\<rparr>),
               db = docs, documents = map snd reprs\<rparr>))"

text \<open>\<^verbatim>\<open>app.get('/restaurants/:id', ...)\<close>\<close>

definition get_restaurants_id :: "env \<Rightarrow> string \<Rightarrow> collection \<Rightarrow> outcome" where
  "get_restaurants_id e i docs =
     (let p = (case findById e i docs of Inl err \<Rightarrow> Inl err | Inr dopt \<Rightarrow> call_apiRepr e dopt)
      in \<lparr>reply = then_catch None (json_reply 200 p), db = docs, documents = projected p\<rparr>)"

text \<open>\<^verbatim>\<open>app.post('/restaurants', ...)\<close>\<close>

definition requiredFields :: "string list" where
  "requiredFields = [''name'', ''borough'', ''cuisine'']"

fun first_missing :: "string list \<Rightarrow> js_object \<Rightarrow> string option" where
  "first_missing [] body = None"
| "first_missing (field' # rest) body =
     (if \<not> has_key field' body then Some field' else first_missing rest body)"

definition create_arg :: "js_object \<Rightarrow> js_object" where
  "create_arg body =
     [(''name'', get_prop body ''name''),
      (''borough'', get_prop body ''borough''),
      (''cuisine'', get_prop body ''cuisine''),
      (''grades'', get_prop body ''grades''),
      (''address'', get_prop body ''address'')]"

definition post_restaurants :: "env \<Rightarrow> js_object \<Rightarrow> collection \<Rightarrow> outcome" where
  "post_restaurants e body docs =
     (case first_missing requiredFields body of
        Some field' \<Rightarrow>
          \<lparr>reply = Some \<lparr>status = 400,
                          payload = Text (''Missing `'' @ field' @ ''` in request body'')\<rparr>,
           db = docs, documents = []\<rparr>
      | None \<Rightarrow>
          (let r = create e (create_arg body) docs;
               p = (case r of Inl err \<Rightarrow> Inl err | Inr (d, _) \<Rightarrow> Inr (apiRepr e d))
           in \<lparr>reply = then_catch None (json_reply 201 p),
               db = (case r of Inl _ \<Rightarrow> docs | Inr (_, docs') \<Rightarrow> docs'),
               documents = projected p\<rparr>))"

text \<open>\<^verbatim>\<open>app.put('/restaurants/:id', ...)\<close>: the \<^verbatim>\<open>if\<close> sends the 400 and does not return.\<close>

definition updateableFields :: "string list" where
  "updateableFields = [''name'', ''borough'', ''cuisine'', ''address'']"

definition toUpdate :: "js_object \<Rightarrow> js_object" where
  "toUpdate body =
     foldl (\<lambda>u field'. if has_key field' body then set_prop u field' (get_prop body field') else u)
       [] updateableFields"

definition ids_match :: "string \<Rightarrow> js_object \<Rightarrow> bool" where
  "ids_match i body =
     (i \<noteq> [] \<and> truthy (get_prop body ''id'') \<and> JStr i = get_prop body ''id'')"

definition mismatch_message :: "env \<Rightarrow> string \<Rightarrow> js_object \<Rightarrow> string" where
  "mismatch_message e i body =
     ''Request path id ('' @ i @ '') and request body id ''
       @ ''('' @ js_to_string (number_to_string e) (get_prop body ''id'') @ '') must match''"

definition put_restaurants_id :: "env \<Rightarrow> string \<Rightarrow> js_object \<Rightarrow> collection \<Rightarrow> outcome" where
  "put_restaurants_id e i body docs =
     (let res = (if \<not> ids_match i body
                 then Some \<lparr>status = 400,
                            payload = Json (JObj [(''message'', JStr (mismatch_message e i body))])\<rparr>
                 else None);
          r = findByIdAndUpdate e i (toUpdate body) docs;
          p = (case r of Inl err \<Rightarrow> Inl err | Inr (dopt, _) \<Rightarrow> call_apiRepr e dopt)
      in \<lparr>reply = then_catch res (json_reply 202 p),
          db = (case r of Inl _ \<Rightarrow> docs | Inr (_, docs') \<Rightarrow> docs'),
          documents = projected p\<rparr>)"

text \<open>\<^verbatim>\<open>app.delete('/restaurants/:id', ...)\<close>\<close>

definition delete_restaurants_id :: "env \<Rightarrow> string \<Rightarrow> collection \<Rightarrow> outcome" where
  "delete_restaurants_id e i docs =
     (let r = findByIdAndRemove e i docs
      in \<lparr>reply = then_catch None
                    (case r of Inl err \<Rightarrow> Inl err | Inr _ \<Rightarrow> Inr \<lparr>status = 204, payload = NoBody\<rparr>),
          db = (case r of Inl _ \<Rightarrow> docs | Inr (_, docs') \<Rightarrow> docs'),
          documents = []\<rparr>)"

section \<open>Dates of grades and the contract of the sort\<close>




section \<open>What a client may see\<close>

text \<open>
  The shape of a record in a response body: an object whose keys are among \<open>id\<close>,
  \<open>name\<close>, \<open>cuisine\<close>, \<open>borough\<close>, \<open>grade\<close>, \<open>address\<close>, in that order, each with a
  string or null as its value (so no array of grades and no structured address). A
  response body is nothing, a text, a \<open>{message}\<close> object, one such record, or
  \<open>{restaurants: [...]}\<close> with such records.
\<close>

definition public_keys :: "string list" where
  "public_keys = [''id'', ''name'', ''cuisine'', ''borough'', ''grade'', ''address'']"

fun keys_among :: "string list \<Rightarrow> string list \<Rightarrow> bool" where
  "keys_among [] ys = True"
| "keys_among (x # xs) [] = False"
| "keys_among (x # xs) (y # ys) = (if x = y then keys_among xs ys else keys_among (x # xs) ys)"

fun is_text :: "jsv \<Rightarrow> bool" where
  "is_text (JStr _) = True"
| "is_text JNull = True"
| "is_text _ = False"

fun public_object :: "jsv \<Rightarrow> bool" where
  "public_object (JObj kvs) = (keys_among (map fst kvs) public_keys \<and> list_all is_text (map snd kvs))"
| "public_object _ = False"

fun restaurants_list :: "jsv \<Rightarrow> bool" where
  "restaurants_list (JObj [(k, JArr vs)]) = (k = ''restaurants'' \<and> list_all public_object vs)"
| "restaurants_list _ = False"

fun is_message :: "jsv \<Rightarrow> bool" where
  "is_message (JObj [(k, JStr m)]) = (k = ''message'')"
| "is_message _ = False"

definition client_payload :: "payload \<Rightarrow> bool" where
  "client_payload p =
     (case p of
        NoBody \<Rightarrow> True
      | Text _ \<Rightarrow> True
      | Json v \<Rightarrow> is_message v \<or> public_object v \<or> restaurants_list v)"

definition client_reply :: "outcome \<Rightarrow> bool" where
  "client_reply out = (case reply out of None \<Rightarrow> False | Some resp \<Rightarrow> client_payload (payload resp))"

section \<open>Exact match\<close>

text \<open>
  A document matches a query exactly when, for each of \<open>cuisine\<close> and \<open>borough\<close> that
  the query gives as a string, the document has that very string at the path.
  \<open>string_params\<close>: the query gives each of the two as a string, or not at all.
\<close>

fun is_str :: "jsv \<Rightarrow> bool" where
  "is_str (JStr _) = True"
| "is_str _ = False"

definition exact_match :: "js_object \<Rightarrow> restaurant \<Rightarrow> bool" where
  "exact_match q d =
     list_all (\<lambda>k. case get_prop q k of JStr s \<Rightarrow> string_path k d = Val s | _ \<Rightarrow> True)
       queryableFields"

definition string_params :: "js_object \<Rightarrow> bool" where
  "string_params q = list_all (\<lambda>k. is_str (get_prop q k) \<or> \<not> has_key k q) queryableFields"

section \<open>A sample environment\<close>

text \<open>Numbers in decimal, as the engine prints an integer below \<open>10\<^sup>2\<^sup>1\<close>.\<close>

definition digit_char :: "nat \<Rightarrow> char" where
  "digit_char d = char_of (48 + d)"

fun digits :: "nat \<Rightarrow> string" where
  "digits n = (if n < 10 then [digit_char n] else digits (n div 10) @ [digit_char (n mod 10)])"

definition show_int :: "int \<Rightarrow> string" where
  "show_int i = (if i < 0 then CHR ''-'' # digits (nat (- i)) else digits (nat i))"

text \<open>
  The cast of a string to an ObjectId: 24 hexadecimal digits in either case, or 12
  characters taken as the 12 bytes; nothing else.
\<close>

definition is_hex :: "char \<Rightarrow> bool" where
  "is_hex c = (c \<in> set ''0123456789abcdefABCDEF'')"

definition lower_hex :: "char \<Rightarrow> char" where
  "lower_hex c = (case map_of (zip ''ABCDEF'' ''abcdef'') c of None \<Rightarrow> c | Some l \<Rightarrow> l)"

definition hex_byte :: "char \<Rightarrow> string" where
  "hex_byte c =
     [''0123456789abcdef'' ! (of_char c div 16), ''0123456789abcdef'' ! (of_char c mod 16)]"

definition object_id :: "string \<Rightarrow> string option" where
  "object_id s =
     (if length s = 24 \<and> list_all is_hex s then Some (map lower_hex s)
      else if length s = 12 then Some (concat (map hex_byte s))
      else None)"

text \<open>The query operator \<^verbatim>\<open>{$ne: s}\<close>: the path does not hold the string \<open>s\<close>.\<close>

fun ne_condition :: "jsv \<Rightarrow> (string pathval \<Rightarrow> bool) option" where
  "ne_condition (JObj [(k, JStr s)]) = (if k = ''$ne'' then Some (\<lambda>p. p \<noteq> Val s) else None)"
| "ne_condition _ = None"

text \<open>
  The sort of an array of fewer than 64 elements in V8: NaN from the comparison function
  counts as 0; the run at the start of the array is found (and reversed, when strictly
  descending), and each later element is put into it by binary insertion.
\<close>

fun run_length :: "bool \<Rightarrow> ('a \<Rightarrow> 'a \<Rightarrow> int) \<Rightarrow> 'a \<Rightarrow> 'a list \<Rightarrow> nat" where
  "run_length desc c prev [] = 0"
| "run_length desc c prev (x # xs) =
     (if (if desc then c x prev < 0 else 0 \<le> c x prev) then Suc (run_length desc c x xs) else 0)"

function binary_insert :: "('a \<Rightarrow> 'a \<Rightarrow> int) \<Rightarrow> 'a \<Rightarrow> 'a list \<Rightarrow> 'a list" where
  "binary_insert c p xs =
     (if xs = [] then [p]
      else if c p (xs ! (length xs div 2)) < 0
        then binary_insert c p (take (length xs div 2) xs) @ drop (length xs div 2) xs
        else take (Suc (length xs div 2)) xs @ binary_insert c p (drop (Suc (length xs div 2)) xs))"
  by pat_completeness auto
termination
  by (relation "measure (\<lambda>(c, p, xs). length xs)") auto

declare binary_insert.simps [simp del]

definition short_sort :: "('a \<Rightarrow> 'a \<Rightarrow> int option) \<Rightarrow> 'a list \<Rightarrow> 'a list" where
  "short_sort cmp xs =
     (let c = (\<lambda>a b. case cmp a b of None \<Rightarrow> 0 | Some v \<Rightarrow> v) in
      case xs of
        [] \<Rightarrow> []
      | [x] \<Rightarrow> [x]
      | x # y # zs \<Rightarrow>
          (let desc = c y x < 0;
               n = Suc (Suc (run_length desc c y zs));
               run = take n xs
           in fold (binary_insert c) (drop n xs) (if desc then rev run else run)))"

text \<open>
  The sample environment: that sort, decimal numbers, the database up, identifiers cast
  as above. The sample requests give strings only, and neither grades nor an address:
  no other value casts here. \<^verbatim>\<open>$set\<close> drops a key that is not in the schema.
\<close>

definition env0 :: env where
  "env0 = \<lparr>array_sort = short_sort, number_to_string = show_int,
            fresh_id = ''5a00000000000000000000aa'', db_fault = False,
            cast_id = object_id,
            cast_string = (\<lambda>v. None), cast_grades = (\<lambda>v. None),
            cast_address = (\<lambda>v. None), set_other = (\<lambda>k v. Some (\<lambda>d. d)),
            query_op = ne_condition\<rparr>"

section \<open>Sample data\<close>

text \<open>
  Three grades with dates 100 < 200 < 300, a grade without a date, a grade whose date is
  null and two grades with dates before 1970; restaurants whose grades are out of order,
  in order, with a gap and with a null date; the document that
  \<^verbatim>\<open>POST {name: "A", borough: "B", cuisine: "C"}\<close> creates.
\<close>

definition g1 :: grade_doc where
  "g1 = \<lparr>date = Val 100, grade = Val ''A'', score = Val 5\<rparr>"

definition g2 :: grade_doc where
  "g2 = \<lparr>date = Val 200, grade = Val ''B'', score = Val 7\<rparr>"

definition g3 :: grade_doc where
  "g3 = \<lparr>date = Val 300, grade = Val ''C'', score = Val 9\<rparr>"

definition g_undated :: grade_doc where
  "g_undated = \<lparr>date = Undefined, grade = Val ''U'', score = Val 1\<rparr>"

definition g_null :: grade_doc where
  "g_null = \<lparr>date = Null, grade = Val ''N'', score = Val 1\<rparr>"

definition g_early :: grade_doc where
  "g_early = \<lparr>date = Val (- 5), grade = Val ''E'', score = Val 2\<rparr>"

definition g_late :: grade_doc where
  "g_late = \<lparr>date = Val (- 1), grade = Val ''L'', score = Val 3\<rparr>"

definition r1 :: restaurant where
  "r1 = \<lparr>doc_id = ''5a0000000000000000000001'', name = Val ''Old'', borough = Val ''Queens'',
          cuisine = Val ''Italian'',
          address = \<lparr>building = Val ''12'', coord = [], street = Val ''Main St'',
                     zipcode = Undefined\<rparr>,
          grades = [g1, g3, g2]\<rparr>"

definition r0 :: restaurant where
  "r0 = \<lparr>doc_id = ''5a00000000000000000000aa'', name = Val ''A'', borough = Val ''B'',
          cuisine = Val ''C'', address = empty_address, grades = []\<rparr>"

definition r2 :: restaurant where
  "r2 = \<lparr>doc_id = ''5a0000000000000000000003'', name = Val ''Wok'', borough = Val ''Queens'',
          cuisine = Val ''Chinese'', address = empty_address, grades = []\<rparr>"

definition r_sorted :: restaurant where
  "r_sorted = r1\<lparr>grades := [g3, g2, g1]\<rparr>"

definition r_gap :: restaurant where
  "r_gap = r1\<lparr>grades := [g1, g_undated, g3]\<rparr>"

definition r_null :: restaurant where
  "r_null = r1\<lparr>grades := [g_early, g_null, g_late]\<rparr>"

text \<open>Request bodies: a complete one without grades and address, one whose name is
  the empty string, one without \<open>borough\<close>, and two updates of the name, the first with
  an \<open>id\<close> that is not the one of the path.\<close>

definition body_abc :: js_object where
  "body_abc = [(''name'', JStr ''A''), (''borough'', JStr ''B''), (''cuisine'', JStr ''C'')]"

definition body_empty_name :: js_object where
  "body_empty_name = [(''name'', JStr ''''), (''borough'', JStr ''B''), (''cuisine'', JStr ''C'')]"

definition body_no_borough :: js_object where
  "body_no_borough = [(''name'', JStr ''A''), (''cuisine'', JStr ''C'')]"

definition body_other_id :: js_object where
  "body_other_id = [(''id'', JStr ''5a0000000000000000000002''), (''name'', JStr ''New'')]"

definition body_rename :: js_object where
  "body_rename = [(''id'', JStr ''5a0000000000000000000001''), (''name'', JStr ''New'')]"

text \<open>Queries: one with a parameter the handler does not know, and \<^verbatim>\<open>?cuisine[$ne]=Italian\<close>
  as the query parser gives it.\<close>

definition query_italian :: js_object where
  "query_italian = [(''cuisine'', JStr ''Italian''), (''page'', JStr ''2'')]"

definition query_not_italian :: js_object where
  "query_not_italian = [(''cuisine'', JObj [(''$ne'', JStr ''Italian'')])]"

section \<open>The sample sort conforms\<close>












section \<open>The most recent grade\<close>

lemma grade_virtual_fst:
  "fst (grade_virtual e r) =
     (case array_sort e comparefn (grades r) of [] \<Rightarrow> Undefined | g # _ \<Rightarrow> grade g)"
  by (simp add: grade_virtual_def Let_def empty_object_def split: list.splits)


lemma apiRepr_snd: "snd (apiRepr e r) = r\<lparr>grades := array_sort e comparefn (grades r)\<rparr>"
  by (simp add: apiRepr_def grade_virtual_def Let_def)






lemma sorted_r1: "short_sort comparefn [g1, g3, g2] = [g3, g2, g1]"
  by (simp add: short_sort_def Let_def binary_insert.simps g1_def g2_def g3_def comparefn_def
        date_number_def)




lemma sample_grades:
  "grades r1 = [g1, g3, g2]" "grades r0 = []" "grades r2 = []"
  "grades r_sorted = [g3, g2, g1]" "grades r_gap = [g1, g_undated, g3]"
  "grades r_null = [g_early, g_null, g_late]"
  by (simp_all add: r1_def r0_def r2_def r_sorted_def r_gap_def r_null_def)



section \<open>The public representation\<close>

lemma then_catch_None_Inr: "then_catch None (Inr resp) = Some resp"
  by (simp add: then_catch_def send_def)

lemma then_catch_None_Inl: "then_catch None (Inl err) = Some internal_error"
  by (simp add: then_catch_def catch500_def send_def)

lemma then_catch_Some: "then_catch (Some x) r = Some x"
  by (simp add: then_catch_def catch500_def send_def split: sum.splits)

lemma client_payload_internal_error: "client_payload (payload internal_error)"
  by (simp add: client_payload_def internal_error_def)

lemma apiRepr_fst:
  "fst (apiRepr e r) =
     [(''id'', JStr (doc_id r)),
      (''name'', field_jsv (name r)),
      (''cuisine'', field_jsv (cuisine r)),
      (''borough'', field_jsv (borough r)),
      (''grade'', field_jsv (fst (grade_virtual e r))),
      (''address'', JStr (addressString r))]"
  by (simp add: apiRepr_def grade_virtual_def Let_def addressString_def)

lemma public_object_apiRepr: "public_object (json_object (fst (apiRepr e r)))"
  by (cases "name r"; cases "cuisine r"; cases "borough r"; cases "fst (grade_virtual e r)")
     (simp_all add: apiRepr_fst json_object_def field_jsv_def public_keys_def)

lemma client_json_reply:
  "case then_catch None (json_reply code (Inr (apiRepr e d))) of
     None \<Rightarrow> False | Some resp \<Rightarrow> client_payload (payload resp)"
  by (cases "apiRepr e d")
     (use public_object_apiRepr [of e d] in
       \<open>simp add: json_reply_def then_catch_None_Inr client_payload_def\<close>)

lemma client_json_error:
  "case then_catch None (json_reply code (Inl err)) of
     None \<Rightarrow> False | Some resp \<Rightarrow> client_payload (payload resp)"
  by (simp add: json_reply_def then_catch_None_Inl client_payload_internal_error)

lemma client_get_restaurants: "client_reply (get_restaurants e q docs)"
  by (simp add: client_reply_def get_restaurants_def Let_def then_catch_None_Inl
        then_catch_None_Inr internal_error_def client_payload_def
        list_all_iff public_object_apiRepr split: sum.splits)

lemma client_get_restaurants_id: "client_reply (get_restaurants_id e i docs)"
proof (cases "findById e i docs")
  case (Inl err)
  then show ?thesis
    using client_json_error by (simp add: client_reply_def get_restaurants_id_def Let_def)
next
  case (Inr dopt)
  then show ?thesis
    using client_json_error client_json_reply
    by (cases dopt) (simp_all add: client_reply_def get_restaurants_id_def call_apiRepr_def Let_def)
qed

lemma client_post_restaurants: "client_reply (post_restaurants e body docs)"
proof (cases "first_missing requiredFields body")
  case (Some f)
  then show ?thesis
    by (simp add: client_reply_def post_restaurants_def client_payload_def)
next
  case None
  show ?thesis
  proof (cases "create e (create_arg body) docs")
    case (Inl err)
    then show ?thesis
      using None client_json_error by (simp add: client_reply_def post_restaurants_def Let_def)
  next
    case (Inr x)
    then show ?thesis
      using None client_json_reply
      by (cases x) (simp add: client_reply_def post_restaurants_def Let_def)
  qed
qed

lemma client_put_restaurants_id: "client_reply (put_restaurants_id e i body docs)"
proof (cases "ids_match i body")
  case False
  then show ?thesis
    by (simp add: client_reply_def put_restaurants_id_def Let_def then_catch_Some
          client_payload_def)
next
  case True
  show ?thesis
  proof (cases "findByIdAndUpdate e i (toUpdate body) docs")
    case (Inl err)
    then show ?thesis
      using True client_json_error by (simp add: client_reply_def put_restaurants_id_def Let_def)
  next
    case (Inr x)
    obtain dopt docs' where x: "x = (dopt, docs')" by (cases x)
    show ?thesis
      using True Inr x client_json_error client_json_reply
      by (cases dopt) (simp_all add: client_reply_def put_restaurants_id_def call_apiRepr_def Let_def)
  qed
qed

lemma client_delete_restaurants_id: "client_reply (delete_restaurants_id e i docs)"
  by (simp add: client_reply_def delete_restaurants_id_def Let_def then_catch_None_Inl
        then_catch_None_Inr internal_error_def client_payload_def
        split: sum.splits)

text \<open>
  C2. \<open>apiRepr\<close> gives exactly the object \<open>{id, name, cuisine, borough, grade, address}\<close>,
  where \<open>address\<close> is the derived \<open>addressString\<close> and \<open>grade\<close> the derived most recent
  grade; it has no \<open>grades\<close> key and no structured address, and every handler answers
  with a body that holds records in this shape only.
\<close>

theorem apiRepr_public_shape:
  "fst (apiRepr e r) =
     [(''id'', JStr (doc_id r)),
      (''name'', field_jsv (name r)),
      (''cuisine'', field_jsv (cuisine r)),
      (''borough'', field_jsv (borough r)),
      (''grade'', field_jsv (fst (grade_virtual e r))),
      (''address'', JStr (addressString r))] \<and>
   \<not> has_key ''grades'' (fst (apiRepr e r)) \<and>
   public_object (json_object (fst (apiRepr e r))) \<and>
   client_reply (get_restaurants e q docs) \<and>
   client_reply (get_restaurants_id e i docs) \<and>
   client_reply (post_restaurants e body docs) \<and>
   client_reply (put_restaurants_id e i body docs) \<and>
   client_reply (delete_restaurants_id e i docs)"
proof (intro conjI)
  show "\<not> has_key ''grades'' (fst (apiRepr e r))"
    by (simp add: apiRepr_fst has_key_def)
qed (simp_all only: apiRepr_fst [symmetric] public_object_apiRepr client_get_restaurants
       client_get_restaurants_id client_post_restaurants client_put_restaurants_id
       client_delete_restaurants_id)

section \<open>The handlers on the sample data\<close>

lemma object_id_samples:
  "object_id ''5a0000000000000000000001'' = Some ''5a0000000000000000000001''"
  "object_id ''5a00000000000000000000aa'' = Some ''5a00000000000000000000aa''"
  "object_id ''5a00000000000000000000ff'' = Some ''5a00000000000000000000ff''"
  "object_id ''5A00000000000000000000AA'' = Some ''5a00000000000000000000aa''"
  "object_id ''x'' = None"
  by (simp_all add: object_id_def is_hex_def lower_hex_def)

lemma sample_fields:
  "doc_id r1 = ''5a0000000000000000000001'' \<and> name r1 = Val ''Old'' \<and>
   cuisine r1 = Val ''Italian'' \<and> borough r1 = Val ''Queens''"
  "doc_id r2 = ''5a0000000000000000000003'' \<and> name r2 = Val ''Wok'' \<and>
   cuisine r2 = Val ''Chinese'' \<and> borough r2 = Val ''Queens''"
  by (simp_all add: r1_def r2_def)

lemma addressString_r1: "addressString r1 = ''12 Main St''"
  by (simp add: addressString_def r1_def field_to_string_def trim_def white_space_def
        strip.simps)

lemma addressString_empty:
  "address r = empty_address \<Longrightarrow> addressString r = ''undefined undefined''"
  by (simp add: addressString_def empty_address_def field_to_string_def trim_def
        white_space_def strip.simps)

lemma apiRepr_r1:
  "apiRepr env0 r1 =
     ([(''id'', JStr ''5a0000000000000000000001''), (''name'', JStr ''Old''),
       (''cuisine'', JStr ''Italian''), (''borough'', JStr ''Queens''), (''grade'', JStr ''C''),
       (''address'', JStr ''12 Main St'')], r1\<lparr>grades := [g3, g2, g1]\<rparr>)"
proof -
  have srt: "array_sort env0 comparefn (grades r1) = [g3, g2, g1]"
    by (simp add: env0_def sample_grades sorted_r1)
  have "grade g3 = Val ''C''" by (simp add: g3_def)
  then have "fst (grade_virtual env0 r1) = Val ''C''"
    by (simp add: grade_virtual_fst srt)
  then have "fst (apiRepr env0 r1) =
     [(''id'', JStr ''5a0000000000000000000001''), (''name'', JStr ''Old''),
      (''cuisine'', JStr ''Italian''), (''borough'', JStr ''Queens''), (''grade'', JStr ''C''),
      (''address'', JStr ''12 Main St'')]"
    by (simp add: apiRepr_fst field_jsv_def sample_fields addressString_r1)
  moreover have "snd (apiRepr env0 r1) = r1\<lparr>grades := [g3, g2, g1]\<rparr>"
    by (simp add: apiRepr_snd srt)
  ultimately show ?thesis
    by (simp add: prod_eq_iff)
qed

lemma apiRepr_no_grades:
  assumes "grades r = []" and "address r = empty_address"
  shows "apiRepr env0 r =
     ([(''id'', JStr (doc_id r)), (''name'', field_jsv (name r)),
       (''cuisine'', field_jsv (cuisine r)), (''borough'', field_jsv (borough r)),
       (''grade'', JUndefined), (''address'', JStr ''undefined undefined'')], r)"
proof -
  have srt: "array_sort env0 comparefn (grades r) = []"
    by (simp add: env0_def assms(1) short_sort_def)
  have "fst (grade_virtual env0 r) = Undefined"
    by (simp add: grade_virtual_fst srt)
  then have "fst (apiRepr env0 r) =
     [(''id'', JStr (doc_id r)), (''name'', field_jsv (name r)),
      (''cuisine'', field_jsv (cuisine r)), (''borough'', field_jsv (borough r)),
      (''grade'', JUndefined), (''address'', JStr ''undefined undefined'')]"
    by (simp add: apiRepr_fst field_jsv_def addressString_empty [OF assms(2)])
  moreover have "snd (apiRepr env0 r) = r"
    using assms(1) by (simp add: apiRepr_snd srt [unfolded assms(1)])
  ultimately show ?thesis
    by (simp add: prod_eq_iff)
qed

lemma apiRepr_r0:
  "apiRepr env0 r0 =
     ([(''id'', JStr ''5a00000000000000000000aa''), (''name'', JStr ''A''),
       (''cuisine'', JStr ''C''), (''borough'', JStr ''B''), (''grade'', JUndefined),
       (''address'', JStr ''undefined undefined'')], r0)"
proof -
  have "grades r0 = []" and "address r0 = empty_address"
    by (simp_all add: r0_def)
  then show ?thesis
    using apiRepr_no_grades [of r0] by (simp add: r0_def field_jsv_def)
qed

lemma findById_r1: "findById env0 ''5a0000000000000000000001'' [r1] = Inr (Some r1)"
  by (simp add: findById_def env0_def object_id_samples sample_fields)

theorem apiRepr_public_shape_witness:
  "fst (apiRepr env0 r1) =
     [(''id'', JStr ''5a0000000000000000000001''), (''name'', JStr ''Old''),
      (''cuisine'', JStr ''Italian''), (''borough'', JStr ''Queens''), (''grade'', JStr ''C''),
      (''address'', JStr ''12 Main St'')] \<and>
   public_object (json_object (fst (apiRepr env0 r1))) \<and>
   reply (get_restaurants_id env0 ''5a0000000000000000000001'' [r1]) =
     Some \<lparr>status = 200, payload = Json (json_object (fst (apiRepr env0 r1)))\<rparr> \<and>
   client_reply (get_restaurants_id env0 ''5a0000000000000000000001'' [r1])"
proof -
  have "reply (get_restaurants_id env0 ''5a0000000000000000000001'' [r1]) =
     Some \<lparr>status = 200, payload = Json (json_object (fst (apiRepr env0 r1)))\<rparr>"
    by (simp add: get_restaurants_id_def findById_r1 call_apiRepr_def json_reply_def
          then_catch_None_Inr split: prod.splits)
  moreover have "public_object (json_object (fst (apiRepr env0 r1))) \<and>
      client_reply (get_restaurants_id env0 ''5a0000000000000000000001'' [r1])"
    using apiRepr_public_shape [of env0 r1 "[]" "[r1]" "''5a0000000000000000000001''" "[]"]
    by blast
  ultimately show ?thesis
    by (simp add: apiRepr_r1)
qed

section \<open>The sort as a side effect\<close>





lemma create_body_abc: "create env0 (create_arg body_abc) [] = Inr (r0, [r0])"
  by (simp add: create_def create_arg_def body_abc_def get_prop_def cast_path_def
        grades_of_value_def address_of_value_def required_ok_def env0_def r0_def Let_def)

section \<open>Reading one restaurant\<close>

text \<open>
  C5. The identifier of a \<^verbatim>\<open>GET /restaurants/:id\<close> request matches no stored document
  when its cast to an ObjectId fails or gives the identifier of none of them. Then the
  response is 500 with \<open>{message: 'Internal server error'}\<close>, not a status of its own for
  a missing document, and nothing is stored or projected: when the cast succeeds and the
  database is up the query gives null, and projecting null raises.
\<close>

theorem get_missing_document:
  assumes "\<forall>d\<in>set docs. cast_id e i \<noteq> Some (doc_id d)"
  shows "(\<forall>c. cast_id e i = Some c \<and> \<not> db_fault e \<longrightarrow> findById e i docs = Inr None) \<and>
         call_apiRepr e None = Inl TypeError \<and>
         get_restaurants_id e i docs =
           \<lparr>reply = Some \<lparr>status = 500,
                           payload = Json (JObj [(''message'', JStr ''Internal server error'')])\<rparr>,
            db = docs, documents = []\<rparr>"
proof -
  have none: "find (\<lambda>d. doc_id d = c) docs = None" if "cast_id e i = Some c" for c
    using assms that by (auto simp: find_None_iff)
  show ?thesis
  proof (cases "cast_id e i")
    case None
    then show ?thesis
      by (simp add: findById_def call_apiRepr_def get_restaurants_id_def Let_def
            json_reply_def then_catch_None_Inl internal_error_def projected_def)
  next
    case (Some c)
    then show ?thesis
      by (simp add: findById_def none [OF Some] call_apiRepr_def get_restaurants_id_def Let_def
            json_reply_def then_catch_None_Inl internal_error_def projected_def)
  qed
qed

theorem get_missing_document_witness:
  "cast_id env0 ''5a00000000000000000000ff'' = Some ''5a00000000000000000000ff'' \<and>
   doc_id r1 = ''5a0000000000000000000001'' \<and> db_fault env0 = False \<and>
   findById env0 ''5a00000000000000000000ff'' [r1] = Inr None \<and>
   reply (get_restaurants_id env0 ''5a00000000000000000000ff'' [r1]) =
     Some \<lparr>status = 500, payload = Json (JObj [(''message'', JStr ''Internal server error'')])\<rparr>"
proof -
  have c: "cast_id env0 ''5a00000000000000000000ff'' = Some ''5a00000000000000000000ff''"
    by (simp add: env0_def object_id_samples)
  have up: "db_fault env0 = False"
    by (simp add: env0_def)
  have h: "\<forall>d\<in>set [r1]. cast_id env0 ''5a00000000000000000000ff'' \<noteq> Some (doc_id d)"
    by (simp add: c sample_fields)
  have "findById env0 ''5a00000000000000000000ff'' [r1] = Inr None"
    using get_missing_document [OF h] c up by blast
  moreover have "reply (get_restaurants_id env0 ''5a00000000000000000000ff'' [r1]) =
     Some \<lparr>status = 500, payload = Json (JObj [(''message'', JStr ''Internal server error'')])\<rparr>"
    using get_missing_document [OF h] by simp
  ultimately show ?thesis
    using c up by (simp add: sample_fields)
qed

text \<open>
  C9. The derived \<open>addressString\<close> is the trimmed concatenation of building and street
  with a space between; a record created by \<^verbatim>\<open>POST {name: "A", borough: "B", cuisine: "C"}\<close>
  should then have the empty string as its address. The template literal writes a missing
  building and a missing street as \<open>undefined\<close>: the created record and the following
  \<^verbatim>\<open>GET\<close> answer with the address \<open>undefined undefined\<close>.
\<close>

theorem post_without_address_then_get:
  "post_restaurants env0 body_abc [] =
     \<lparr>reply = Some \<lparr>status = 201,
                     payload = Json (JObj [(''id'', JStr ''5a00000000000000000000aa''),
                                           (''name'', JStr ''A''),
                                           (''cuisine'', JStr ''C''), (''borough'', JStr ''B''),
                                           (''address'', JStr ''undefined undefined'')])\<rparr>,
      db = [r0], documents = [r0]\<rparr> \<and>
   address r0 = empty_address \<and>
   addressString r0 = ''undefined undefined'' \<and>
   reply (get_restaurants_id env0 ''5a00000000000000000000aa'' [r0]) =
     Some \<lparr>status = 200,
            payload = Json (JObj [(''id'', JStr ''5a00000000000000000000aa''),
                                  (''name'', JStr ''A''),
                                  (''cuisine'', JStr ''C''), (''borough'', JStr ''B''),
                                  (''address'', JStr ''undefined undefined'')])\<rparr>"
proof (intro conjI)
  have "first_missing requiredFields body_abc = None"
    by (simp add: requiredFields_def body_abc_def has_key_def)
  then show "post_restaurants env0 body_abc [] =
     \<lparr>reply = Some \<lparr>status = 201,
                     payload = Json (JObj [(''id'', JStr ''5a00000000000000000000aa''),
                                           (''name'', JStr ''A''),
                                           (''cuisine'', JStr ''C''), (''borough'', JStr ''B''),
                                           (''address'', JStr ''undefined undefined'')])\<rparr>,
      db = [r0], documents = [r0]\<rparr>"
    by (simp add: post_restaurants_def create_body_abc apiRepr_r0 json_reply_def
          then_catch_None_Inr json_object_def projected_def)
  show a: "address r0 = empty_address" by (simp add: r0_def)
  show "addressString r0 = ''undefined undefined''"
    using a by (rule addressString_empty)
  have "doc_id r0 = ''5a00000000000000000000aa''"
    by (simp add: r0_def)
  then have "findById env0 ''5a00000000000000000000aa'' [r0] = Inr (Some r0)"
    by (simp add: findById_def env0_def object_id_samples)
  then show "reply (get_restaurants_id env0 ''5a00000000000000000000aa'' [r0]) =
     Some \<lparr>status = 200,
            payload = Json (JObj [(''id'', JStr ''5a00000000000000000000aa''),
                                  (''name'', JStr ''A''),
                                  (''cuisine'', JStr ''C''), (''borough'', JStr ''B''),
                                  (''address'', JStr ''undefined undefined'')])\<rparr>"
    by (simp add: get_restaurants_id_def call_apiRepr_def apiRepr_r0 json_reply_def
          then_catch_None_Inr json_object_def)
qed

section \<open>Updating a restaurant\<close>

lemma toUpdate_name_only:
  "toUpdate body_other_id = [(''name'', JStr ''New'')]"
  "toUpdate body_rename = [(''name'', JStr ''New'')]"
  by (simp_all add: toUpdate_def updateableFields_def body_other_id_def body_rename_def
        has_key_def get_prop_def)

lemma update_r1_name:
  "findByIdAndUpdate env0 ''5a0000000000000000000001'' [(''name'', JStr ''New'')] [r1] =
     Inr (Some r1, [r1\<lparr>name := Val ''New''\<rparr>])"
  by (simp add: findByIdAndUpdate_def env0_def object_id_samples cast_set_def cast_path_def
        sample_fields)

text \<open>
  C4. An update whose path id and body id are not both present and equal should be
  answered with 400 and leave the collection as it is. With the path id
  \<open>5a0000000000000000000001\<close>, the identifier of the stored restaurant, and the body
  \<open>{id: "5a0000000000000000000002", name: "New"}\<close> the handler sends the 400 and, not
  returning, goes on to the update: the stored name is changed.
\<close>

theorem put_mismatch_still_updates:
  "\<not> ids_match ''5a0000000000000000000001'' body_other_id \<and>
   doc_id r1 = ''5a0000000000000000000001'' \<and>
   reply (put_restaurants_id env0 ''5a0000000000000000000001'' body_other_id [r1]) =
     Some \<lparr>status = 400,
            payload = Json (JObj [(''message'',
              JStr (''Request path id (5a0000000000000000000001) and request body id '' @
                    ''(5a0000000000000000000002) must match''))])\<rparr> \<and>
   db (put_restaurants_id env0 ''5a0000000000000000000001'' body_other_id [r1]) =
     [r1\<lparr>name := Val ''New''\<rparr>] \<and>
   name r1 = Val ''Old''"
proof -
  have no: "\<not> ids_match ''5a0000000000000000000001'' body_other_id"
    by (simp add: ids_match_def body_other_id_def get_prop_def)
  have msg: "mismatch_message env0 ''5a0000000000000000000001'' body_other_id =
      ''Request path id (5a0000000000000000000001) and request body id '' @
      ''(5a0000000000000000000002) must match''"
    by (simp add: mismatch_message_def body_other_id_def get_prop_def)
  have "reply (put_restaurants_id env0 ''5a0000000000000000000001'' body_other_id [r1]) =
     Some \<lparr>status = 400,
            payload = Json (JObj [(''message'',
              JStr (mismatch_message env0 ''5a0000000000000000000001'' body_other_id))])\<rparr>"
    using no by (simp add: put_restaurants_id_def Let_def then_catch_Some)
  moreover have "db (put_restaurants_id env0 ''5a0000000000000000000001'' body_other_id [r1]) =
     [r1\<lparr>name := Val ''New''\<rparr>]"
    by (simp add: put_restaurants_id_def Let_def toUpdate_name_only update_r1_name)
  ultimately show ?thesis
    using no unfolding msg by (simp add: sample_fields)
qed

text \<open>
  C6. A successful update should answer 202 with the public representation of the record
  after the update. With the path id \<open>5a0000000000000000000001\<close> and the body
  \<open>{id: "5a0000000000000000000001", name: "New"}\<close> the collection holds the new name, and
  the body of the 202 holds the old one: the update call gives the document as it was
  found.
\<close>

theorem put_replies_with_old_values:
  "ids_match ''5a0000000000000000000001'' body_rename \<and>
   put_restaurants_id env0 ''5a0000000000000000000001'' body_rename [r1] =
     \<lparr>reply = Some \<lparr>status = 202,
                     payload = Json (JObj [(''id'', JStr ''5a0000000000000000000001''),
                                           (''name'', JStr ''Old''),
                                           (''cuisine'', JStr ''Italian''),
                                           (''borough'', JStr ''Queens''), (''grade'', JStr ''C''),
                                           (''address'', JStr ''12 Main St'')])\<rparr>,
      db = [r1\<lparr>name := Val ''New''\<rparr>],
      documents = [r1\<lparr>grades := [g3, g2, g1]\<rparr>]\<rparr>"
proof -
  have yes: "ids_match ''5a0000000000000000000001'' body_rename"
    by (simp add: ids_match_def body_rename_def get_prop_def)
  show ?thesis
    using yes
    by (simp add: put_restaurants_id_def Let_def toUpdate_name_only update_r1_name
          call_apiRepr_def apiRepr_r1 json_reply_def then_catch_None_Inr json_object_def
          projected_def)
qed

section \<open>Listing restaurants\<close>

lemma map_of_set_prop: "map_of (set_prop f k v) = (map_of f)(k \<mapsto> v)"
  by (induction f) (auto simp: fun_eq_iff)

lemma keys_set_prop: "fst ` set (set_prop f k v) = insert k (fst ` set f)"
proof -
  have "dom (map_of (set_prop f k v)) = insert k (dom (map_of f))"
    by (simp add: map_of_set_prop)
  then show ?thesis
    by (simp add: dom_map_of_conv_image_fst)
qed

lemma map_fst_filter: "map fst (filter (\<lambda>p. P (fst p)) q) = filter P (map fst q)"
  by (induction q) auto

lemma distinct_set_prop: "distinct (map fst f) \<Longrightarrow> distinct (map fst (set_prop f k v))"
  by (induction f) (auto simp: keys_set_prop)

lemma has_key_map_of: "has_key k q \<longleftrightarrow> map_of q k \<noteq> None"
  by (simp add: has_key_def map_of_eq_None_iff)

lemma get_prop_str_has_key: "get_prop q k = JStr s \<Longrightarrow> has_key k q"
  by (auto simp: get_prop_def has_key_map_of split: option.splits)

lemma map_of_filter_step:
  "map_of (foldl (\<lambda>flt k. if k \<in> Q then set_prop flt k (g k) else flt) acc ks) k =
     (if k \<in> set ks \<and> k \<in> Q then Some (g k) else map_of acc k)"
  by (induction ks arbitrary: acc) (auto simp: map_of_set_prop)

lemma distinct_filter_step:
  "distinct (map fst acc) \<Longrightarrow>
     distinct (map fst (foldl (\<lambda>flt k. if k \<in> Q then set_prop flt k (g k) else flt) acc ks))"
  by (induction ks arbitrary: acc) (auto simp: distinct_set_prop)

lemma filter_step_cong:
  "\<forall>k\<in>Q. g k = g' k \<Longrightarrow>
     foldl (\<lambda>flt k. if k \<in> Q then set_prop flt k (g' k) else flt) acc (filter (\<lambda>k. k \<in> Q) ks) =
     foldl (\<lambda>flt k. if k \<in> Q then set_prop flt k (g k) else flt) acc ks"
  by (induction ks arbitrary: acc) auto

lemma build_filter_iff:
  "(k, v) \<in> set (build_filter q) \<longleftrightarrow>
     k \<in> set queryableFields \<and> has_key k q \<and> v = get_prop q k"
proof -
  have d: "distinct (map fst (build_filter q))"
    unfolding build_filter_def by (rule distinct_filter_step) simp
  have "map_of (build_filter q) k =
      (if k \<in> set (keys q) \<and> k \<in> set queryableFields then Some (get_prop q k) else None)"
    unfolding build_filter_def by (simp add: map_of_filter_step)
  moreover have "k \<in> set (keys q) \<longleftrightarrow> has_key k q"
    by (simp add: keys_def has_key_def)
  ultimately have "map_of (build_filter q) k = Some v \<longleftrightarrow>
      k \<in> set queryableFields \<and> has_key k q \<and> v = get_prop q k"
    by auto
  then show ?thesis
    using map_of_eq_Some_iff [OF d] by simp
qed

lemma build_filter_recognized:
  "build_filter (filter (\<lambda>p. fst p \<in> set queryableFields) q) = build_filter q"
proof -
  let ?Q = "set queryableFields"
  let ?q' = "filter (\<lambda>p. fst p \<in> ?Q) q"
  have k: "keys ?q' = filter (\<lambda>k. k \<in> ?Q) (keys q)"
    using map_fst_filter [of "\<lambda>k. k \<in> ?Q" q] by (simp add: keys_def remdups_filter)
  have g: "\<forall>k\<in>?Q. get_prop q k = get_prop ?q' k"
    using map_of_filter [of "\<lambda>k. k \<in> ?Q" q] by (simp add: get_prop_def restrict_map_def)
  show ?thesis
    unfolding build_filter_def k by (rule filter_step_cong [OF g])
qed

lemma matches_exact:
  assumes "matches e (build_filter q) d"
  shows "exact_match q d"
  unfolding exact_match_def list_all_iff
proof
  fix k
  assume k: "k \<in> set queryableFields"
  show "case get_prop q k of JStr s \<Rightarrow> string_path k d = Val s | _ \<Rightarrow> True"
  proof (cases "get_prop q k")
    case (JStr s)
    then have "(k, JStr s) \<in> set (build_filter q)"
      using k by (simp add: build_filter_iff get_prop_str_has_key)
    then have "cond_holds e (JStr s) (string_path k d)"
      using assms by (auto simp: matches_def list_all_iff)
    then show ?thesis
      using JStr by (simp add: cond_holds_def)
  qed simp_all
qed

lemma string_params_filter:
  assumes "string_params q" and "(k, v) \<in> set (build_filter q)"
  shows "k \<in> set queryableFields \<and> (\<exists>s. v = JStr s \<and> get_prop q k = JStr s)"
proof -
  have k: "k \<in> set queryableFields" and h: "has_key k q" and v: "v = get_prop q k"
    using assms(2) by (simp_all add: build_filter_iff)
  have "is_str (get_prop q k)"
    using assms(1) k h by (auto simp: string_params_def list_all_iff)
  then show ?thesis
    using k v by (cases "get_prop q k") simp_all
qed

lemma exact_matches:
  assumes "string_params q" and "exact_match q d"
  shows "matches e (build_filter q) d"
  unfolding matches_def list_all_iff
proof
  fix p
  assume p: "p \<in> set (build_filter q)"
  obtain k v where kv: "p = (k, v)" by (cases p)
  obtain s where k: "k \<in> set queryableFields" and v: "v = JStr s" and g: "get_prop q k = JStr s"
    using string_params_filter [OF assms(1)] p kv by blast
  have "string_path k d = Val s"
    using assms(2) k g by (auto simp: exact_match_def list_all_iff)
  then show "case p of (k, v) \<Rightarrow> cond_holds e v (string_path k d)"
    by (simp add: kv v cond_holds_def)
qed

lemma string_params_cond_ok:
  assumes "string_params q"
  shows "list_all (\<lambda>(k, v). cond_ok e v) (build_filter q)"
  unfolding list_all_iff
proof
  fix p
  assume p: "p \<in> set (build_filter q)"
  obtain k v where kv: "p = (k, v)" by (cases p)
  obtain s where "v = JStr s"
    using string_params_filter [OF assms] p kv by blast
  then show "case p of (k, v) \<Rightarrow> cond_ok e v"
    by (simp add: kv cond_ok_def)
qed

lemma find_limit_Inr:
  "find_limit e flt n docs = Inr rs \<Longrightarrow> rs = take n (filter (matches e flt) docs)"
  by (auto simp: find_limit_def split: if_splits)

text \<open>
  C7, as the code has it. The list handler builds its filter from the parameters
  \<open>cuisine\<close> and \<open>borough\<close> that the query has, with the values the query gives, and
  nothing else: any other parameter changes nothing. When the query succeeds the response
  is 200 with \<open>{restaurants: [...]}\<close>, the public representations of the first ten stored
  documents at most that the store finds for the filter; when it fails the response is
  500. When the query gives each of the two parameters as a string or not at all, and the
  database is up, the query succeeds and these documents are the first ten exact matches.
  A parameter that is not a string goes to the store as the condition it is.
\<close>

theorem get_restaurants_filters_and_caps:
  "(\<forall>k v. (k, v) \<in> set (build_filter q) \<longleftrightarrow>
      k \<in> set queryableFields \<and> has_key k q \<and> v = get_prop q k) \<and>
   get_restaurants e q docs =
     get_restaurants e (filter (\<lambda>p. fst p \<in> set queryableFields) q) docs \<and>
   (\<forall>rs. find_limit e (build_filter q) 10 docs = Inr rs \<longrightarrow>
      get_restaurants e q docs =
        \<lparr>reply = Some \<lparr>status = 200,
                        payload = Json (JObj [(''restaurants'',
                          JArr (map (\<lambda>d. json_object (fst (apiRepr e d))) rs))])\<rparr>,
         db = docs, documents = map (\<lambda>d. snd (apiRepr e d)) rs\<rparr> \<and>
      rs = take 10 (filter (matches e (build_filter q)) docs) \<and>
      length rs \<le> 10 \<and> set rs \<subseteq> set docs) \<and>
   (\<forall>err. find_limit e (build_filter q) 10 docs = Inl err \<longrightarrow>
      get_restaurants e q docs =
        \<lparr>reply = Some \<lparr>status = 500,
                        payload = Json (JObj [(''message'', JStr ''Internal server error'')])\<rparr>,
         db = docs, documents = []\<rparr>) \<and>
   (string_params q \<and> \<not> db_fault e \<longrightarrow>
      find_limit e (build_filter q) 10 docs = Inr (take 10 (filter (exact_match q) docs)))"
proof (intro conjI allI impI)
  fix k v
  show "(k, v) \<in> set (build_filter q) \<longleftrightarrow>
      k \<in> set queryableFields \<and> has_key k q \<and> v = get_prop q k"
    by (rule build_filter_iff)
next
  show "get_restaurants e q docs =
     get_restaurants e (filter (\<lambda>p. fst p \<in> set queryableFields) q) docs"
    by (simp add: get_restaurants_def build_filter_recognized)
next
  fix rs
  assume found: "find_limit e (build_filter q) 10 docs = Inr rs"
  show rs: "rs = take 10 (filter (matches e (build_filter q)) docs)"
    using found by (rule find_limit_Inr)
  show "get_restaurants e q docs =
        \<lparr>reply = Some \<lparr>status = 200,
                        payload = Json (JObj [(''restaurants'',
                          JArr (map (\<lambda>d. json_object (fst (apiRepr e d))) rs))])\<rparr>,
         db = docs, documents = map (\<lambda>d. snd (apiRepr e d)) rs\<rparr>"
    using found by (simp add: get_restaurants_def Let_def then_catch_None_Inr comp_def)
  show "length rs \<le> 10" by (simp add: rs)
  have "set rs \<subseteq> set (filter (matches e (build_filter q)) docs)"
    unfolding rs by (rule set_take_subset)
  then show "set rs \<subseteq> set docs" by auto
next
  fix err
  assume "find_limit e (build_filter q) 10 docs = Inl err"
  then show "get_restaurants e q docs =
        \<lparr>reply = Some \<lparr>status = 500,
                        payload = Json (JObj [(''message'', JStr ''Internal server error'')])\<rparr>,
         db = docs, documents = []\<rparr>"
    by (simp add: get_restaurants_def Let_def then_catch_None_Inl internal_error_def)
next
  assume a: "string_params q \<and> \<not> db_fault e"
  then have "matches e (build_filter q) = exact_match q"
    using matches_exact exact_matches by (auto simp: fun_eq_iff)
  then show "find_limit e (build_filter q) 10 docs = Inr (take 10 (filter (exact_match q) docs))"
    using a string_params_cond_ok [of q e] by (simp add: find_limit_def)
qed

lemma exact_match_r1: "exact_match query_italian r1"
  by (simp add: exact_match_def queryableFields_def query_italian_def get_prop_def
        string_path_def sample_fields)

lemma exact_match_r2: "\<not> exact_match query_italian r2"
  by (simp add: exact_match_def queryableFields_def query_italian_def get_prop_def
        string_path_def sample_fields)

theorem get_restaurants_filters_and_caps_witness:
  "string_params query_italian \<and> db_fault env0 = False \<and>
   build_filter query_italian = [(''cuisine'', JStr ''Italian'')] \<and>
   exact_match query_italian r1 \<and> exact_match query_italian r2 = False \<and>
   find_limit env0 (build_filter query_italian) 10 [r1, r2] = Inr [r1] \<and>
   reply (get_restaurants env0 query_italian [r1, r2]) =
     Some \<lparr>status = 200,
            payload = Json (JObj [(''restaurants'',
              JArr [JObj [(''id'', JStr ''5a0000000000000000000001''), (''name'', JStr ''Old''),
                          (''cuisine'', JStr ''Italian''), (''borough'', JStr ''Queens''),
                          (''grade'', JStr ''C''), (''address'', JStr ''12 Main St'')]])])\<rparr> \<and>
   length (documents (get_restaurants env0 query_italian (replicate 12 r1))) = 10"
proof -
  have sp: "string_params query_italian"
    by (simp add: string_params_def queryableFields_def query_italian_def get_prop_def has_key_def)
  have up: "db_fault env0 = False"
    by (simp add: env0_def)
  have bf: "build_filter query_italian = [(''cuisine'', JStr ''Italian'')]"
    by (simp add: build_filter_def keys_def queryableFields_def query_italian_def get_prop_def)
  have "find_limit env0 (build_filter query_italian) 10 [r1, r2] =
      Inr (take 10 (filter (exact_match query_italian) [r1, r2]))"
    using get_restaurants_filters_and_caps [of query_italian env0 "[r1, r2]"] sp up by blast
  then have rs: "find_limit env0 (build_filter query_italian) 10 [r1, r2] = Inr [r1]"
    by (simp add: exact_match_r1 exact_match_r2)
  have "get_restaurants env0 query_italian [r1, r2] =
        \<lparr>reply = Some \<lparr>status = 200,
                        payload = Json (JObj [(''restaurants'',
                          JArr (map (\<lambda>d. json_object (fst (apiRepr env0 d))) [r1]))])\<rparr>,
         db = [r1, r2], documents = map (\<lambda>d. snd (apiRepr env0 d)) [r1]\<rparr>"
    using get_restaurants_filters_and_caps [of query_italian env0 "[r1, r2]"] rs by blast
  then have rep: "reply (get_restaurants env0 query_italian [r1, r2]) =
     Some \<lparr>status = 200,
            payload = Json (JObj [(''restaurants'',
              JArr [JObj [(''id'', JStr ''5a0000000000000000000001''), (''name'', JStr ''Old''),
                          (''cuisine'', JStr ''Italian''), (''borough'', JStr ''Queens''),
                          (''grade'', JStr ''C''), (''address'', JStr ''12 Main St'')]])])\<rparr>"
    by (simp add: apiRepr_r1 json_object_def)
  define rs' where "rs' = take 10 (filter (exact_match query_italian) (replicate 12 r1))"
  have len: "length rs' = 10"
    by (simp add: rs'_def exact_match_r1)
  have "find_limit env0 (build_filter query_italian) 10 (replicate 12 r1) = Inr rs'"
    unfolding rs'_def
    using get_restaurants_filters_and_caps [of query_italian env0 "replicate 12 r1"] sp up
    by blast
  then have "get_restaurants env0 query_italian (replicate 12 r1) =
        \<lparr>reply = Some \<lparr>status = 200,
                        payload = Json (JObj [(''restaurants'',
                          JArr (map (\<lambda>d. json_object (fst (apiRepr env0 d))) rs'))])\<rparr>,
         db = replicate 12 r1, documents = map (\<lambda>d. snd (apiRepr env0 d)) rs'\<rparr>"
    using get_restaurants_filters_and_caps [of query_italian env0 "replicate 12 r1"]
    by blast
  then have "length (documents (get_restaurants env0 query_italian (replicate 12 r1))) = 10"
    by (simp add: len)
  then show ?thesis
    using sp up bf rep rs by (simp add: exact_match_r1 exact_match_r2)
qed

text \<open>
  C7 as stated fails: the filter is not an exact match when a recognized parameter is
  not a string. For \<^verbatim>\<open>GET /restaurants?cuisine[$ne]=Italian\<close> the query parser gives the
  object \<open>{$ne: "Italian"}\<close> as the value of \<open>cuisine\<close>, the handler copies it into the
  filter, and the response lists the restaurant whose cuisine is Chinese and not the one
  whose cuisine is Italian.
\<close>

theorem get_restaurants_operator_counterexample:
  "build_filter query_not_italian = [(''cuisine'', JObj [(''$ne'', JStr ''Italian'')])] \<and>
   cuisine r1 = Val ''Italian'' \<and> cuisine r2 = Val ''Chinese'' \<and>
   get_restaurants env0 query_not_italian [r1, r2] =
     \<lparr>reply = Some \<lparr>status = 200,
                     payload = Json (JObj [(''restaurants'',
                       JArr [JObj [(''id'', JStr ''5a0000000000000000000003''),
                                   (''name'', JStr ''Wok''), (''cuisine'', JStr ''Chinese''),
                                   (''borough'', JStr ''Queens''),
                                   (''address'', JStr ''undefined undefined'')]])])\<rparr>,
      db = [r1, r2], documents = [r2]\<rparr>"
proof -
  have bf: "build_filter query_not_italian = [(''cuisine'', JObj [(''$ne'', JStr ''Italian'')])]"
    by (simp add: build_filter_def keys_def queryableFields_def query_not_italian_def get_prop_def)
  have m1: "\<not> matches env0 [(''cuisine'', JObj [(''$ne'', JStr ''Italian'')])] r1"
    by (simp add: matches_def cond_holds_def env0_def string_path_def sample_fields)
  have m2: "matches env0 [(''cuisine'', JObj [(''$ne'', JStr ''Italian'')])] r2"
    by (simp add: matches_def cond_holds_def env0_def string_path_def sample_fields)
  have ok: "cond_ok env0 (JObj [(''$ne'', JStr ''Italian'')])"
    by (simp add: cond_ok_def env0_def)
  have up: "\<not> db_fault env0"
    by (simp add: env0_def)
  have fl: "find_limit env0 [(''cuisine'', JObj [(''$ne'', JStr ''Italian'')])] 10 [r1, r2] =
      Inr [r2]"
    by (simp add: find_limit_def ok up m1 m2)
  have "grades r2 = []" and "address r2 = empty_address"
    by (simp_all add: r2_def)
  then have repr: "apiRepr env0 r2 =
     ([(''id'', JStr ''5a0000000000000000000003''), (''name'', JStr ''Wok''),
       (''cuisine'', JStr ''Chinese''), (''borough'', JStr ''Queens''),
       (''grade'', JUndefined), (''address'', JStr ''undefined undefined'')], r2)"
    using apiRepr_no_grades [of r2] by (simp add: sample_fields field_jsv_def)
  have "get_restaurants env0 query_not_italian [r1, r2] =
     \<lparr>reply = Some \<lparr>status = 200,
                     payload = Json (JObj [(''restaurants'',
                       JArr [JObj [(''id'', JStr ''5a0000000000000000000003''),
                                   (''name'', JStr ''Wok''), (''cuisine'', JStr ''Chinese''),
                                   (''borough'', JStr ''Queens''),
                                   (''address'', JStr ''undefined undefined'')]])])\<rparr>,
      db = [r1, r2], documents = [r2]\<rparr>"
    by (simp add: get_restaurants_def bf fl Let_def repr then_catch_None_Inr json_object_def)
  then show ?thesis
    using bf by (simp add: sample_fields)
qed

section \<open>Creating a restaurant\<close>

lemma create_arg_props:
  "get_prop (create_arg body) ''name'' = get_prop body ''name''"
  "get_prop (create_arg body) ''borough'' = get_prop body ''borough''"
  "get_prop (create_arg body) ''cuisine'' = get_prop body ''cuisine''"
  "get_prop (create_arg body) ''grades'' = get_prop body ''grades''"
  "get_prop (create_arg body) ''address'' = get_prop body ''address''"
  by (simp_all add: create_arg_def get_prop_def)

lemma required_ok_iff: "required_ok f \<longleftrightarrow> (\<exists>s. f = Val s \<and> s \<noteq> [])"
  by (cases f) (simp_all add: required_ok_def)

lemma create_Inr:
  assumes "create e (create_arg body) docs = Inr (d, docs')"
  shows "docs' = docs @ [d]" and "doc_id d = fresh_id e"
    and "cast_path e (get_prop body ''name'') = Inr (name d)"
    and "cast_path e (get_prop body ''borough'') = Inr (borough d)"
    and "cast_path e (get_prop body ''cuisine'') = Inr (cuisine d)"
    and "grades_of_value e (get_prop body ''grades'') = Some (grades d)"
    and "address_of_value e (get_prop body ''address'') = Some (address d)"
    and "required_ok (name d)" and "required_ok (borough d)" and "required_ok (cuisine d)"
    and "\<not> db_fault e"
  using assms
  by (auto simp: create_def create_arg_props Let_def split: sum.splits option.splits if_splits)

lemma create_succeeds_iff:
  "(\<exists>d docs'. create e (create_arg body) docs = Inr (d, docs')) \<longleftrightarrow>
     \<not> db_fault e \<and>
     (\<exists>s. cast_path e (get_prop body ''name'') = Inr (Val s) \<and> s \<noteq> []) \<and>
     (\<exists>s. cast_path e (get_prop body ''borough'') = Inr (Val s) \<and> s \<noteq> []) \<and>
     (\<exists>s. cast_path e (get_prop body ''cuisine'') = Inr (Val s) \<and> s \<noteq> []) \<and>
     grades_of_value e (get_prop body ''grades'') \<noteq> None \<and>
     address_of_value e (get_prop body ''address'') \<noteq> None"
  (is "?L \<longleftrightarrow> ?R")
proof
  assume ?L
  then obtain d docs' where c: "create e (create_arg body) docs = Inr (d, docs')" by blast
  show ?R
    using create_Inr(3-11) [OF c] by (auto simp: required_ok_iff)
next
  assume ?R
  then show ?L
    by (auto simp: create_def create_arg_props Let_def required_ok_def)
qed

lemma first_missing_required:
  "first_missing requiredFields body =
     (if \<not> has_key ''name'' body then Some ''name''
      else if \<not> has_key ''borough'' body then Some ''borough''
      else if \<not> has_key ''cuisine'' body then Some ''cuisine''
      else None)"
  by (simp add: requiredFields_def)

text \<open>
  C3, as the handler and the schema have it. A body without one of the keys \<open>name\<close>,
  \<open>borough\<close>, \<open>cuisine\<close> (only the presence of the key is looked at) is answered with
  400 and the text naming the first missing one, in that order, and nothing is stored.
  With the three keys present the handler asks the store to create a record from
  \<open>name\<close>, \<open>borough\<close>, \<open>cuisine\<close>, \<open>grades\<close> and \<open>address\<close>: when the store accepts it,
  the record is added and the response is 201 with its public representation; when the
  store rejects it, the response is 500 and nothing is stored. The store accepts exactly
  when the database is up, the values cast, and each of the three required paths is a
  string that is not empty.
\<close>

theorem post_restaurants_validates_then_creates:
  "(\<not> has_key ''name'' body \<longrightarrow>
      post_restaurants e body docs =
        \<lparr>reply = Some \<lparr>status = 400, payload = Text ''Missing `name` in request body''\<rparr>,
         db = docs, documents = []\<rparr>) \<and>
   (has_key ''name'' body \<and> \<not> has_key ''borough'' body \<longrightarrow>
      post_restaurants e body docs =
        \<lparr>reply = Some \<lparr>status = 400, payload = Text ''Missing `borough` in request body''\<rparr>,
         db = docs, documents = []\<rparr>) \<and>
   (has_key ''name'' body \<and> has_key ''borough'' body \<and> \<not> has_key ''cuisine'' body \<longrightarrow>
      post_restaurants e body docs =
        \<lparr>reply = Some \<lparr>status = 400, payload = Text ''Missing `cuisine` in request body''\<rparr>,
         db = docs, documents = []\<rparr>) \<and>
   (has_key ''name'' body \<and> has_key ''borough'' body \<and> has_key ''cuisine'' body \<longrightarrow>
      (\<forall>d docs'. create e (create_arg body) docs = Inr (d, docs') \<longrightarrow>
         post_restaurants e body docs =
           \<lparr>reply = Some \<lparr>status = 201, payload = Json (json_object (fst (apiRepr e d)))\<rparr>,
            db = docs @ [d], documents = [snd (apiRepr e d)]\<rparr> \<and>
         doc_id d = fresh_id e \<and>
         cast_path e (get_prop body ''name'') = Inr (name d) \<and>
         cast_path e (get_prop body ''borough'') = Inr (borough d) \<and>
         cast_path e (get_prop body ''cuisine'') = Inr (cuisine d) \<and>
         grades_of_value e (get_prop body ''grades'') = Some (grades d) \<and>
         address_of_value e (get_prop body ''address'') = Some (address d)) \<and>
      (\<forall>err. create e (create_arg body) docs = Inl err \<longrightarrow>
         post_restaurants e body docs =
           \<lparr>reply = Some \<lparr>status = 500,
                           payload = Json (JObj [(''message'', JStr ''Internal server error'')])\<rparr>,
            db = docs, documents = []\<rparr>)) \<and>
   ((\<exists>d docs'. create e (create_arg body) docs = Inr (d, docs')) \<longleftrightarrow>
      \<not> db_fault e \<and>
      (\<exists>s. cast_path e (get_prop body ''name'') = Inr (Val s) \<and> s \<noteq> []) \<and>
      (\<exists>s. cast_path e (get_prop body ''borough'') = Inr (Val s) \<and> s \<noteq> []) \<and>
      (\<exists>s. cast_path e (get_prop body ''cuisine'') = Inr (Val s) \<and> s \<noteq> []) \<and>
      grades_of_value e (get_prop body ''grades'') \<noteq> None \<and>
      address_of_value e (get_prop body ''address'') \<noteq> None)"
proof (intro conjI impI allI)
  assume "\<not> has_key ''name'' body"
  then show "post_restaurants e body docs =
        \<lparr>reply = Some \<lparr>status = 400, payload = Text ''Missing `name` in request body''\<rparr>,
         db = docs, documents = []\<rparr>"
    by (simp add: post_restaurants_def first_missing_required)
next
  assume "has_key ''name'' body \<and> \<not> has_key ''borough'' body"
  then show "post_restaurants e body docs =
        \<lparr>reply = Some \<lparr>status = 400, payload = Text ''Missing `borough` in request body''\<rparr>,
         db = docs, documents = []\<rparr>"
    by (simp add: post_restaurants_def first_missing_required)
next
  assume "has_key ''name'' body \<and> has_key ''borough'' body \<and> \<not> has_key ''cuisine'' body"
  then show "post_restaurants e body docs =
        \<lparr>reply = Some \<lparr>status = 400, payload = Text ''Missing `cuisine` in request body''\<rparr>,
         db = docs, documents = []\<rparr>"
    by (simp add: post_restaurants_def first_missing_required)
next
  fix d docs'
  assume all: "has_key ''name'' body \<and> has_key ''borough'' body \<and> has_key ''cuisine'' body"
    and c: "create e (create_arg body) docs = Inr (d, docs')"
  show "post_restaurants e body docs =
           \<lparr>reply = Some \<lparr>status = 201, payload = Json (json_object (fst (apiRepr e d)))\<rparr>,
            db = docs @ [d], documents = [snd (apiRepr e d)]\<rparr>"
    using all c create_Inr(1) [OF c]
    by (cases "apiRepr e d")
       (simp add: post_restaurants_def first_missing_required Let_def json_reply_def
          then_catch_None_Inr projected_def)
  show "doc_id d = fresh_id e"
    by (rule create_Inr(2) [OF c])
  show "cast_path e (get_prop body ''name'') = Inr (name d)"
    by (rule create_Inr(3) [OF c])
  show "cast_path e (get_prop body ''borough'') = Inr (borough d)"
    by (rule create_Inr(4) [OF c])
  show "cast_path e (get_prop body ''cuisine'') = Inr (cuisine d)"
    by (rule create_Inr(5) [OF c])
  show "grades_of_value e (get_prop body ''grades'') = Some (grades d)"
    by (rule create_Inr(6) [OF c])
  show "address_of_value e (get_prop body ''address'') = Some (address d)"
    by (rule create_Inr(7) [OF c])
next
  fix err
  assume "has_key ''name'' body \<and> has_key ''borough'' body \<and> has_key ''cuisine'' body"
    and "create e (create_arg body) docs = Inl err"
  then show "post_restaurants e body docs =
           \<lparr>reply = Some \<lparr>status = 500,
                           payload = Json (JObj [(''message'', JStr ''Internal server error'')])\<rparr>,
            db = docs, documents = []\<rparr>"
    by (simp add: post_restaurants_def first_missing_required Let_def json_reply_def
          then_catch_None_Inl internal_error_def projected_def)
next
  show "(\<exists>d docs'. create e (create_arg body) docs = Inr (d, docs')) \<longleftrightarrow>
      \<not> db_fault e \<and>
      (\<exists>s. cast_path e (get_prop body ''name'') = Inr (Val s) \<and> s \<noteq> []) \<and>
      (\<exists>s. cast_path e (get_prop body ''borough'') = Inr (Val s) \<and> s \<noteq> []) \<and>
      (\<exists>s. cast_path e (get_prop body ''cuisine'') = Inr (Val s) \<and> s \<noteq> []) \<and>
      grades_of_value e (get_prop body ''grades'') \<noteq> None \<and>
      address_of_value e (get_prop body ''address'') \<noteq> None"
    by (rule create_succeeds_iff)
qed

text \<open>
  C3 as stated fails: with the three keys present and the name the empty string, the
  required validator of the schema rejects the record, the response is 500 and nothing
  is stored.
\<close>

theorem post_restaurants_empty_name_counterexample:
  "has_key ''name'' body_empty_name \<and> has_key ''borough'' body_empty_name \<and>
   has_key ''cuisine'' body_empty_name \<and> db_fault env0 = False \<and>
   post_restaurants env0 body_empty_name [] =
     \<lparr>reply = Some \<lparr>status = 500,
                     payload = Json (JObj [(''message'', JStr ''Internal server error'')])\<rparr>,
      db = [], documents = []\<rparr>"
proof -
  have "create env0 (create_arg body_empty_name) [] = Inl ValidationError"
    by (simp add: create_def create_arg_def body_empty_name_def get_prop_def cast_path_def
          grades_of_value_def address_of_value_def required_ok_def)
  moreover have "first_missing requiredFields body_empty_name = None"
    by (simp add: requiredFields_def body_empty_name_def has_key_def)
  ultimately show ?thesis
    by (simp add: post_restaurants_def Let_def json_reply_def then_catch_None_Inl
          internal_error_def projected_def)
       (simp add: body_empty_name_def has_key_def env0_def)
qed

theorem post_restaurants_validates_then_creates_witness:
  "has_key ''name'' body_no_borough \<and> has_key ''borough'' body_no_borough = False \<and>
   post_restaurants env0 body_no_borough [r1] =
     \<lparr>reply = Some \<lparr>status = 400, payload = Text ''Missing `borough` in request body''\<rparr>,
      db = [r1], documents = []\<rparr> \<and>
   has_key ''name'' body_abc \<and> has_key ''borough'' body_abc \<and> has_key ''cuisine'' body_abc \<and>
   create env0 (create_arg body_abc) [] = Inr (r0, [r0]) \<and>
   post_restaurants env0 body_abc [] =
     \<lparr>reply = Some \<lparr>status = 201, payload = Json (json_object (fst (apiRepr env0 r0)))\<rparr>,
      db = [r0], documents = [r0]\<rparr> \<and>
   create env0 (create_arg body_empty_name) [] = Inl ValidationError \<and>
   reply (post_restaurants env0 body_empty_name []) =
     Some \<lparr>status = 500, payload = Json (JObj [(''message'', JStr ''Internal server error'')])\<rparr>"
proof -
  have k1: "has_key ''name'' body_no_borough \<and> \<not> has_key ''borough'' body_no_borough"
    by (simp add: body_no_borough_def has_key_def)
  have k2: "has_key ''name'' body_abc \<and> has_key ''borough'' body_abc \<and> has_key ''cuisine'' body_abc"
    by (simp add: body_abc_def has_key_def)
  have k3: "has_key ''name'' body_empty_name \<and> has_key ''borough'' body_empty_name \<and>
      has_key ''cuisine'' body_empty_name"
    by (simp add: body_empty_name_def has_key_def)
  have c3: "create env0 (create_arg body_empty_name) [] = Inl ValidationError"
    by (simp add: create_def create_arg_def body_empty_name_def get_prop_def cast_path_def
          grades_of_value_def address_of_value_def required_ok_def)
  have "post_restaurants env0 body_no_borough [r1] =
     \<lparr>reply = Some \<lparr>status = 400, payload = Text ''Missing `borough` in request body''\<rparr>,
      db = [r1], documents = []\<rparr>"
    using post_restaurants_validates_then_creates [of body_no_borough env0 "[r1]"] k1 by blast
  moreover have "post_restaurants env0 body_abc [] =
     \<lparr>reply = Some \<lparr>status = 201, payload = Json (json_object (fst (apiRepr env0 r0)))\<rparr>,
      db = [] @ [r0], documents = [snd (apiRepr env0 r0)]\<rparr>"
    using post_restaurants_validates_then_creates [of body_abc env0 "[]"] k2 create_body_abc
    by blast
  moreover have "post_restaurants env0 body_empty_name [] =
     \<lparr>reply = Some \<lparr>status = 500,
                     payload = Json (JObj [(''message'', JStr ''Internal server error'')])\<rparr>,
      db = [], documents = []\<rparr>"
    using post_restaurants_validates_then_creates [of body_empty_name env0 "[]"] k3 c3
    by blast
  ultimately show ?thesis
    using k1 k2 c3 create_body_abc by (simp add: apiRepr_r0)
qed

section \<open>The partial update\<close>




















end
